theory Spec2Isabelle
  imports Main "HOL-Library.Word"
begin

unbundle bit_operations_syntax

section \<open>Go values used by the server\<close>

type_synonym byte = "8 word"
type_synonym uint16 = "16 word"

text \<open>
  A Go byte slice that is sliced again by the server (\<^verbatim>\<open>net.HardwareAddr\<close>,
  \<^verbatim>\<open>dhcp4.Packet\<close>, the application payload). \<open>elems\<close> are the visible elements
  \<^verbatim>\<open>s[0:len(s)]\<close>; \<open>room\<close> are the elements of the backing array between
  \<^verbatim>\<open>len(s)\<close> and \<^verbatim>\<open>cap(s)\<close>, which a slice expression may reach.
\<close>

record bslice =
  elems :: "byte list"
  room :: "byte list"

text \<open>
  \<^verbatim>\<open>net.IP\<close> is a byte slice that the server compares with \<^verbatim>\<open>nil\<close>:
  \<open>None\<close> is the nil slice, \<open>Some bs\<close> a non-nil slice with elements \<open>bs\<close>.
\<close>

type_synonym IP = "byte list option"

text \<open>
  How a call can fail to return a value: a run-time panic, a returned \<^verbatim>\<open>error\<close>
  (with its message), or \<^verbatim>\<open>log.Fatalf\<close>, which exits the process.
\<close>

datatype panic = TypeAssertion | NilDereference | IndexOutOfRange | SliceBoundsOutOfRange

datatype failure = Panic panic | Error string | Fatal string

text \<open>The simple slice expression \<^verbatim>\<open>s[lo:hi]\<close>: the bounds are checked against the capacity.\<close>

definition reslice :: "bslice \<Rightarrow> nat \<Rightarrow> nat \<Rightarrow> failure + bslice" where
  "reslice s lo hi =
     (let arr = elems s @ room s
      in if lo \<le> hi \<and> hi \<le> length arr
         then Inr \<lparr>elems = take (hi - lo) (drop lo arr), room = drop hi arr\<rparr>
         else Inl (Panic SliceBoundsOutOfRange))"

text \<open>The builtin \<^verbatim>\<open>copy(dst, src)\<close>: overwrites the first \<open>min (len dst) (len src)\<close> elements.\<close>

definition copy :: "byte list \<Rightarrow> byte list \<Rightarrow> byte list" where
  "copy dst src = take (length dst) src @ drop (length src) dst"

subsection \<open>Package net\<close>

definition len :: "IP \<Rightarrow> nat" where
  "len ip = (case ip of None \<Rightarrow> 0 | Some bs \<Rightarrow> length bs)"

definition bytes :: "IP \<Rightarrow> byte list" where
  "bytes ip = (case ip of None \<Rightarrow> [] | Some bs \<Rightarrow> bs)"

definition v4InV6Prefix :: "byte list" where
  "v4InV6Prefix = [0, 0, 0, 0, 0, 0, 0, 0, 0, 0, 0xff, 0xff]"

text \<open>\<^verbatim>\<open>net.IPv4(a, b, c, d)\<close> returns the 16-byte form of the address.\<close>

definition net_IPv4 :: "byte \<Rightarrow> byte \<Rightarrow> byte \<Rightarrow> byte \<Rightarrow> IP" where
  "net_IPv4 a b c d = Some (v4InV6Prefix @ [a, b, c, d])"

text \<open>
  \<^verbatim>\<open>func (ip IP) Equal(x IP) bool\<close>: an IPv4 address and the same address in its
  16-byte form are equal.
\<close>

definition IP_Equal :: "IP \<Rightarrow> IP \<Rightarrow> bool" where
  "IP_Equal ip x =
     (if len ip = len x then bytes ip = bytes x
      else if len ip = 4 \<and> len x = 16
        then take 12 (bytes x) = v4InV6Prefix \<and> bytes ip = drop 12 (bytes x)
      else if len ip = 16 \<and> len x = 4
        then take 12 (bytes ip) = v4InV6Prefix \<and> drop 12 (bytes ip) = bytes x
      else False)"

subsection \<open>Package dhcp4 (github.com/krolaw/dhcp4)\<close>

text \<open>
  \<^verbatim>\<open>dhcp4.MessageType\<close> and \<^verbatim>\<open>dhcp4.OptionCode\<close> are bytes; the constants have
  their RFC 2132 values.
\<close>

definition Discover :: byte where "Discover = 1"
definition Offer :: byte where "Offer = 2"
definition Request :: byte where "Request = 3"
definition ACK :: byte where "ACK = 5"
definition NAK :: byte where "NAK = 6"

definition Pad :: byte where "Pad = 0"
definition OptionHostName :: byte where "OptionHostName = 12"
definition OptionRequestedIPAddress :: byte where "OptionRequestedIPAddress = 50"
definition OptionDHCPMessageType :: byte where "OptionDHCPMessageType = 53"
definition OptionParameterRequestList :: byte where "OptionParameterRequestList = 55"
definition End :: byte where "End = 255"

type_synonym Options = "byte \<rightharpoonup> byte list"

text \<open>
  \<^verbatim>\<open>func (p Packet) CIAddr() net.IP { return net.IP(p[12:16]) }\<close>: the client-IP
  field is a slice of the message itself, so the result is never the nil slice, and the
  call panics when the message has no 16 bytes.
\<close>

definition CIAddr :: "bslice \<Rightarrow> failure + IP" where
  "CIAddr p = (case reslice p 12 16 of Inl f \<Rightarrow> Inl f | Inr s \<Rightarrow> Inr (Some (elems s)))"

text \<open>
  \<^verbatim>\<open>func (p Packet) ParseOptions() Options\<close>. The options start after the 240 bytes
  of the fixed header and the magic cookie; the loop runs while at least a code and a
  length byte are left and the code is not End, skips Pad bytes, stops at an option whose
  value is cut short, and stores each value under its code (a later option with the same
  code replaces an earlier one).
\<close>

fun parse_loop :: "byte list \<Rightarrow> Options \<Rightarrow> Options" where
  "parse_loop (c # n # rest) options =
     (if c = End then options
      else if c = Pad then parse_loop (n # rest) options
      else if length rest < unat n then options
      else parse_loop (drop (unat n) rest) (options(c \<mapsto> take (unat n) rest)))"
| "parse_loop opts options = options"

definition ParseOptions :: "bslice \<Rightarrow> Options" where
  "ParseOptions p =
     parse_loop (if 240 < length (elems p) then drop 240 (elems p) else []) Map.empty"

section \<open>The server's data\<close>

record ServerConfig =
  Listen :: string
  MyMac :: bslice
  MyAddress :: IP

text \<open>
  Of \<^verbatim>\<open>config.Lease\<close> the server reads the address only. In \<open>DhcpData\<close>,
  \<open>HostName\<close> holds the bytes of the Go string and \<open>RequestList\<close> the option codes.
\<close>

record Lease =
  Ip :: IP

record DhcpData =
  packet :: bslice
  Options :: Options
  MsgType :: byte
  HostName :: "byte list"
  RequestList :: "byte list"
  RequestedIp :: IP

record DataPacket =
  SrcMac :: bslice
  DstMac :: bslice
  EtherType :: uint16
  VLan :: "uint16 list"
  SrcIP :: IP
  DstIP :: IP
  SrcPort :: uint16
  DstPort :: uint16
  app :: bslice
  OpCode :: byte
  Dhcp :: DhcpData

text \<open>
  \<^verbatim>\<open>raw_packet.RawPacket\<close>, the response handed to the encoder. The fields that
  share a name with a field of \<open>DataPacket\<close> carry the prefix \<open>rp_\<close>.
\<close>

record RawPacket =
  DhcpType :: byte
  rp_EtherType :: uint16
  rp_VLan :: "uint16 list"
  Payload :: "byte list"
  SrcIp :: IP
  DstIp :: IP
  OfferedIp :: IP
  rp_DstMac :: bslice
  rp_SrcMac :: bslice

record SockaddrLinklayer =
  Protocol :: uint16
  Ifindex :: int
  Hatype :: uint16
  Pkttype :: byte
  Halen :: byte
  Addr :: "byte list"

text \<open>
  The server. Its capture handle and packet source are not fields of the model: the
  frames they deliver are the list of packets given to \<open>run\<close>.
\<close>

record DhcpServer =
  config :: ServerConfig
  fd :: int
  ifIndex :: int
  addr :: SockaddrLinklayer
  resolver :: "DataPacket \<Rightarrow> Lease option"

text \<open>
  The collaborators whose code is outside \<^verbatim>\<open>server.go\<close>, taken as parameters: the
  three builders of the DHCP payload (methods of \<open>DataPacket\<close>), the encoder
  \<^verbatim>\<open>RawPacket.Marshal\<close>, and \<^verbatim>\<open>syscall.Sendto\<close>, which answers with an
  error message or with \<open>None\<close> for the nil error.
\<close>

record Collab =
  OfferResponse :: "DataPacket \<Rightarrow> Lease \<Rightarrow> DhcpServer \<Rightarrow> byte list"
  AckResponse :: "DataPacket \<Rightarrow> Lease \<Rightarrow> DhcpServer \<Rightarrow> byte list"
  NakResponse :: "DataPacket \<Rightarrow> Lease \<Rightarrow> DhcpServer \<Rightarrow> byte list"
  Marshal :: "RawPacket \<Rightarrow> byte list"
  Sendto :: "int \<Rightarrow> byte list \<Rightarrow> SockaddrLinklayer \<Rightarrow> string option"

section \<open>The response constructors\<close>

definition prepareOffer :: "Collab \<Rightarrow> DhcpServer \<Rightarrow> DataPacket \<Rightarrow> Lease \<Rightarrow> RawPacket" where
  "prepareOffer x s p lease =
     \<lparr>DhcpType = Offer,
      rp_EtherType = EtherType p,
      rp_VLan = VLan p,
      Payload = OfferResponse x p lease s,
      SrcIp = MyAddress (config s),
      DstIp = SrcIP p,
      OfferedIp = Ip lease,
      rp_DstMac = SrcMac p,
      rp_SrcMac = MyMac (config s)\<rparr>"

definition prepareAck :: "Collab \<Rightarrow> DhcpServer \<Rightarrow> DataPacket \<Rightarrow> Lease \<Rightarrow> failure + RawPacket" where
  "prepareAck x s p lease =
     (case CIAddr (packet (Dhcp p)) of
        Inl f \<Rightarrow> Inl f
      | Inr ciaddr \<Rightarrow>
          Inr \<lparr>DhcpType = ACK,
               rp_EtherType = EtherType p,
               rp_VLan = VLan p,
               Payload = AckResponse x p lease s,
               SrcIp = MyAddress (config s),
               DstIp = ciaddr,
               OfferedIp = Ip lease,
               rp_DstMac = SrcMac p,
               rp_SrcMac = MyMac (config s)\<rparr>)"

definition prepareNak :: "Collab \<Rightarrow> DhcpServer \<Rightarrow> DataPacket \<Rightarrow> Lease \<Rightarrow> RawPacket" where
  "prepareNak x s p lease =
     \<lparr>DhcpType = NAK,
      rp_EtherType = EtherType p,
      rp_VLan = VLan p,
      Payload = NakResponse x p lease s,
      SrcIp = MyAddress (config s),
      DstIp = SrcIP p,
      OfferedIp = Ip lease,
      rp_DstMac = SrcMac p,
      rp_SrcMac = MyMac (config s)\<rparr>"

section \<open>The decision\<close>

definition processRequest :: "Collab \<Rightarrow> DhcpServer \<Rightarrow> DataPacket \<Rightarrow> failure + RawPacket option" where
  "processRequest x s p =
     (case resolver s p of
        None \<Rightarrow> Inr None
      | Some lease \<Rightarrow>
          (case CIAddr (packet (Dhcp p)) of
             Inl f \<Rightarrow> Inl f
           | Inr ciaddr \<Rightarrow>
               if ciaddr = None then Inr (Some (prepareOffer x s p lease))
               else if IP_Equal (Ip lease) ciaddr then map_sum id Some (prepareAck x s p lease)
               else if IP_Equal (Ip lease) (RequestedIp (Dhcp p))
                 then map_sum id Some (prepareAck x s p lease)
               else Inr (Some (prepareNak x s p lease))))"

definition processDiscover :: "Collab \<Rightarrow> DhcpServer \<Rightarrow> DataPacket \<Rightarrow> RawPacket option" where
  "processDiscover x s p =
     (case resolver s p of
        None \<Rightarrow> None
      | Some lease \<Rightarrow> Some (prepareOffer x s p lease))"

text \<open>The \<^verbatim>\<open>switch p.Dhcp.MsgType\<close> at the head of \<^verbatim>\<open>respond\<close>, which chooses the response.\<close>

definition decide :: "Collab \<Rightarrow> DhcpServer \<Rightarrow> DataPacket \<Rightarrow> failure + RawPacket option" where
  "decide x s p =
     (if MsgType (Dhcp p) = Request then processRequest x s p
      else if MsgType (Dhcp p) = Discover then Inr (processDiscover x s p)
      else Inr None)"

section \<open>Decoded packets (github.com/google/gopacket)\<close>

text \<open>
  \<^verbatim>\<open>parsePacket\<close> receives a \<^verbatim>\<open>gopacket.Packet\<close>: the layers the capture
  library decoded from the frame, outermost first. Of each layer the model keeps what
  the server reads: the addresses and type of \<^verbatim>\<open>*layers.Ethernet\<close>, the
  \<^verbatim>\<open>LayerContents()\<close> of \<^verbatim>\<open>*layers.Dot1Q\<close> (the bytes of the tag), the
  addresses of \<^verbatim>\<open>*layers.IPv4\<close>, the ports of \<^verbatim>\<open>*layers.UDP\<close> and the bytes
  of the application payload. \<open>LinuxSLL\<close>, \<open>IPv6\<close> and \<open>TCP\<close> stand for a link,
  network and transport layer of another type.
\<close>

datatype Layer =
    Ethernet bslice bslice uint16
  | LinuxSLL
  | Dot1Q "byte list"
  | IPv4 IP IP
  | IPv6
  | UDP uint16 uint16
  | TCP
  | AppPayload bslice

type_synonym Packet = "Layer list"

fun isLinkLayer :: "Layer \<Rightarrow> bool" where
  "isLinkLayer (Ethernet srcMAC dstMAC ethernetType) = True"
| "isLinkLayer LinuxSLL = True"
| "isLinkLayer l = False"

fun isNetworkLayer :: "Layer \<Rightarrow> bool" where
  "isNetworkLayer (IPv4 srcIP dstIP) = True"
| "isNetworkLayer IPv6 = True"
| "isNetworkLayer l = False"

fun isTransportLayer :: "Layer \<Rightarrow> bool" where
  "isTransportLayer (UDP srcPort dstPort) = True"
| "isTransportLayer TCP = True"
| "isTransportLayer l = False"

fun isApplicationLayer :: "Layer \<Rightarrow> bool" where
  "isApplicationLayer (AppPayload b) = True"
| "isApplicationLayer l = False"

text \<open>
  \<^verbatim>\<open>p.LinkLayer()\<close>, \<^verbatim>\<open>p.NetworkLayer()\<close>, \<^verbatim>\<open>p.TransportLayer()\<close> and
  \<^verbatim>\<open>p.ApplicationLayer()\<close>: the first layer of the kind, or nil.
\<close>

definition LinkLayer :: "Packet \<Rightarrow> Layer option" where
  "LinkLayer p = find isLinkLayer p"

definition NetworkLayer :: "Packet \<Rightarrow> Layer option" where
  "NetworkLayer p = find isNetworkLayer p"

definition TransportLayer :: "Packet \<Rightarrow> Layer option" where
  "TransportLayer p = find isTransportLayer p"

definition ApplicationLayer :: "Packet \<Rightarrow> Layer option" where
  "ApplicationLayer p = find isApplicationLayer p"

text \<open>
  The unchecked type assertions \<^verbatim>\<open>x.(*layers.Ethernet)\<close>, \<^verbatim>\<open>x.(*layers.IPv4)\<close>
  and \<^verbatim>\<open>x.(*layers.UDP)\<close> panic on nil and on a layer of another type; the method
  call \<^verbatim>\<open>p.ApplicationLayer().Payload()\<close> panics on nil.
\<close>

fun asEthernet :: "Layer option \<Rightarrow> failure + bslice \<times> bslice \<times> uint16" where
  "asEthernet (Some (Ethernet srcMAC dstMAC ethernetType)) = Inr (srcMAC, dstMAC, ethernetType)"
| "asEthernet l = Inl (Panic TypeAssertion)"

fun asIPv4 :: "Layer option \<Rightarrow> failure + IP \<times> IP" where
  "asIPv4 (Some (IPv4 srcIP dstIP)) = Inr (srcIP, dstIP)"
| "asIPv4 l = Inl (Panic TypeAssertion)"

fun asUDP :: "Layer option \<Rightarrow> failure + uint16 \<times> uint16" where
  "asUDP (Some (UDP srcPort dstPort)) = Inr (srcPort, dstPort)"
| "asUDP l = Inl (Panic TypeAssertion)"

fun payloadOf :: "Layer option \<Rightarrow> failure + bslice" where
  "payloadOf (Some (AppPayload b)) = Inr b"
| "payloadOf l = Inl (Panic NilDereference)"

section \<open>Decoding a request\<close>

text \<open>The expression \<^verbatim>\<open>uint16(c[0])<<8 + uint16(c[1])\<close> on the contents of a tag.\<close>

definition tci :: "byte list \<Rightarrow> uint16" where
  "tci c = push_bit 8 (ucast (c ! 0)) + ucast (c ! 1)"

text \<open>
  The loop over \<^verbatim>\<open>p.Layers()\<close> that appends one entry per 802.1Q layer; indexing
  the contents panics when they are shorter than two bytes.
\<close>

fun vlan_loop :: "Layer list \<Rightarrow> uint16 list \<Rightarrow> failure + uint16 list" where
  "vlan_loop [] vlan = Inr vlan"
| "vlan_loop (Dot1Q c # ls) vlan =
     (if length c < 2 then Inl (Panic IndexOutOfRange) else vlan_loop ls (vlan @ [tci c]))"
| "vlan_loop (l # ls) vlan = vlan_loop ls vlan"

definition nil_slice :: bslice where
  "nil_slice = \<lparr>elems = [], room = []\<rparr>"

text \<open>\<^verbatim>\<open>&DataPacket{}\<close>: every field has its zero value.\<close>

definition zero_DataPacket :: DataPacket where
  "zero_DataPacket =
     \<lparr>SrcMac = nil_slice, DstMac = nil_slice, EtherType = 0, VLan = [],
      SrcIP = None, DstIP = None, SrcPort = 0, DstPort = 0, app = nil_slice, OpCode = 0,
      Dhcp = \<lparr>packet = nil_slice, Options = Map.empty, MsgType = 0, HostName = [],
              RequestList = [], RequestedIp = None\<rparr>\<rparr>"

text \<open>
  The three optional options read after the message type: host name, parameter request
  list, and the requested IP, which is set only from a value of four bytes.
\<close>

definition readOptions :: "DhcpData \<Rightarrow> DhcpData" where
  "readOptions d =
     (let d1 = (case Options d OptionHostName of
                  Some hostName \<Rightarrow> d\<lparr>HostName := hostName\<rparr>
                | None \<Rightarrow> d);
          d2 = (case Options d1 OptionParameterRequestList of
                  Some requestList \<Rightarrow> d1\<lparr>RequestList := requestList\<rparr>
                | None \<Rightarrow> d1)
      in case Options d2 OptionRequestedIPAddress of
           Some requestedIp \<Rightarrow>
             if length requestedIp = 4
             then d2\<lparr>RequestedIp :=
                      net_IPv4 (requestedIp ! 0) (requestedIp ! 1) (requestedIp ! 2) (requestedIp ! 3)\<rparr>
             else d2
         | None \<Rightarrow> d2)"

definition parsePacket :: "Packet \<Rightarrow> failure + DataPacket" where
  "parsePacket p =
     (case asEthernet (LinkLayer p) of
        Inl f \<Rightarrow> Inl f
      | Inr (srcMAC, dstMAC, ethernetType) \<Rightarrow>
     (case vlan_loop p [] of
        Inl f \<Rightarrow> Inl f
      | Inr vlan \<Rightarrow>
     (case asIPv4 (NetworkLayer p) of
        Inl f \<Rightarrow> Inl f
      | Inr (srcIP, dstIP) \<Rightarrow>
     (case asUDP (TransportLayer p) of
        Inl f \<Rightarrow> Inl f
      | Inr (srcPort, dstPort) \<Rightarrow>
     (case payloadOf (ApplicationLayer p) of
        Inl f \<Rightarrow> Inl f
      | Inr a \<Rightarrow>
          if elems a = [] then Inl (Panic IndexOutOfRange)
          else
            (let dp = zero_DataPacket
                   \<lparr>SrcMac := srcMAC, DstMac := dstMAC, EtherType := ethernetType,
                    VLan := vlan, SrcIP := srcIP, DstIP := dstIP,
                    SrcPort := srcPort, DstPort := dstPort, app := a, OpCode := elems a ! 0\<rparr>;
                 d = (Dhcp dp)\<lparr>packet := a, Options := ParseOptions a\<rparr>
             in case Options d OptionDHCPMessageType of
                  Some msgType \<Rightarrow>
                    if length msgType \<noteq> 1
                    then Inl (Error ''Cannot parse DHCP message type'')
                    else Inr (dp\<lparr>Dhcp := readOptions (d\<lparr>MsgType := msgType ! 0\<rparr>)\<rparr>)
                | None \<Rightarrow> Inr (dp\<lparr>Dhcp := readOptions d\<rparr>)))))))"

section \<open>Responding and the receive loop\<close>

text \<open>
  What \<^verbatim>\<open>respond\<close> does for one request: nothing, or one call of
  \<^verbatim>\<open>syscall.Sendto\<close> with the encoded response and a link-layer address.
\<close>

datatype action = NotResponding | Sent RawPacket "byte list" SockaddrLinklayer

definition respond :: "Collab \<Rightarrow> DhcpServer \<Rightarrow> DataPacket \<Rightarrow> failure + action" where
  "respond x s p =
     (case decide x s p of
        Inl f \<Rightarrow> Inl f
      | Inr None \<Rightarrow> Inr NotResponding
      | Inr (Some response) \<Rightarrow>
          (case reslice (DstMac p) 0 8 of
             Inl f \<Rightarrow> Inl f
           | Inr mac \<Rightarrow>
               (let a = (addr s)\<lparr>Addr := copy (Addr (addr s)) (elems mac)\<rparr>;
                    data = Marshal x response
                in case Sendto x (fd s) data a of
                     Some err \<Rightarrow> Inl (Fatal (''Sendto failed: '' @ err))
                   | None \<Rightarrow> Inr (Sent response data a))))"

text \<open>
  The loop of \<^verbatim>\<open>run\<close> over the frames the capture delivers. A returned error skips
  the frame; a panic or \<^verbatim>\<open>log.Fatalf\<close> ends the process. The result is what was
  done for the frames handled so far, and how the process ended, if it did.
\<close>

fun run_loop :: "Collab \<Rightarrow> DhcpServer \<Rightarrow> Packet list \<Rightarrow> action list \<times> failure option" where
  "run_loop x s [] = ([], None)"
| "run_loop x s (pkt # packets) =
     (case parsePacket pkt of
        Inl f \<Rightarrow>
          (case f of
             Error err \<Rightarrow> run_loop x s packets
           | Panic k \<Rightarrow> ([], Some f)
           | Fatal m \<Rightarrow> ([], Some f))
      | Inr p \<Rightarrow>
          (case respond x s p of
             Inl f \<Rightarrow> ([], Some f)
           | Inr a \<Rightarrow> (a # fst (run_loop x s packets), snd (run_loop x s packets))))"

definition run :: "Collab \<Rightarrow> DhcpServer \<Rightarrow> Packet list \<Rightarrow> action list \<times> failure option" where
  "run x s packets =
     run_loop x
       (s\<lparr>addr := \<lparr>Protocol = 4, Ifindex = ifIndex s, Hatype = 0, Pkttype = 0, Halen = 6,
                   Addr = replicate 8 0\<rparr>\<rparr>)
       packets"

section \<open>Notions used to state the properties\<close>

text \<open>The contents of the 802.1Q layers of a packet, outermost first.\<close>

fun dot1q_tags :: "Layer list \<Rightarrow> byte list list" where
  "dot1q_tags [] = []"
| "dot1q_tags (Dot1Q c # ls) = c # dot1q_tags ls"
| "dot1q_tags (l # ls) = dot1q_tags ls"

text \<open>
  The 802.1Q packing of the first two bytes of a tag: three priority bits, the
  drop-eligible bit, and the 12-bit VLAN id, which is the low nibble of the first byte
  followed by the second byte.
\<close>

definition vlan_id :: "byte list \<Rightarrow> nat" where
  "vlan_id c = 256 * (unat (c ! 0) mod 16) + unat (c ! 1)"

text \<open>The other four bits of the first byte: the priority and the drop-eligible bit.\<close>

definition priority_and_dei :: "byte list \<Rightarrow> nat" where
  "priority_and_dei c = unat (c ! 0) div 16"

fun isEthernet :: "Layer option \<Rightarrow> bool" where
  "isEthernet (Some (Ethernet srcMAC dstMAC ethernetType)) = True"
| "isEthernet l = False"

fun isIPv4 :: "Layer option \<Rightarrow> bool" where
  "isIPv4 (Some (IPv4 srcIP dstIP)) = True"
| "isIPv4 l = False"

fun isUDP :: "Layer option \<Rightarrow> bool" where
  "isUDP (Some (UDP srcPort dstPort)) = True"
| "isUDP l = False"

text \<open>The bytes of the application payload of a packet (the DHCP message), if it has one.\<close>

definition message :: "Packet \<Rightarrow> bslice" where
  "message p = (case payloadOf (ApplicationLayer p) of Inr a \<Rightarrow> a | Inl f \<Rightarrow> nil_slice)"

text \<open>
  A packet decoded from an Ethernet frame that carries a message over UDP over IPv4,
  with any number of 802.1Q tags: the layers the capture filter is meant to let through.
\<close>

definition dhcp_frame :: "Packet \<Rightarrow> bool" where
  "dhcp_frame p =
     (isEthernet (LinkLayer p) \<and> list_all (\<lambda>c. 2 \<le> length c) (dot1q_tags p) \<and>
      isIPv4 (NetworkLayer p) \<and> isUDP (TransportLayer p) \<and> elems (message p) \<noteq> [])"

text \<open>The message-type option is absent or holds exactly one byte.\<close>

definition message_type_ok :: "Options \<Rightarrow> bool" where
  "message_type_ok opts =
     (case opts OptionDHCPMessageType of None \<Rightarrow> True | Some msgType \<Rightarrow> length msgType = 1)"

section \<open>Concrete inputs\<close>

text \<open>
  A client with MAC aa:bb:cc:dd:ee:ff broadcasts to ff:ff:ff:ff:ff:ff. As in a decoded
  Ethernet layer, both addresses are slices of the frame, so the bytes that follow them
  in the frame are within their capacity.
\<close>

definition client_mac :: bslice where
  "client_mac = \<lparr>elems = [0xaa, 0xbb, 0xcc, 0xdd, 0xee, 0xff], room = [0x08, 0x00]\<rparr>"

definition broadcast_mac :: bslice where
  "broadcast_mac =
     \<lparr>elems = [0xff, 0xff, 0xff, 0xff, 0xff, 0xff],
      room = [0xaa, 0xbb, 0xcc, 0xdd, 0xee, 0xff, 0x08, 0x00]\<rparr>"

definition server_mac :: bslice where
  "server_mac = \<lparr>elems = [0x02, 0x00, 0x00, 0x00, 0x00, 0x01], room = []\<rparr>"

text \<open>
  A DHCP message: the 240 bytes of fixed header and magic cookie, with the given
  client-IP field at bytes 12 to 15, followed by the given option bytes.
\<close>

definition dhcp_message :: "byte list \<Rightarrow> byte list \<Rightarrow> bslice" where
  "dhcp_message ciaddr opts =
     \<lparr>elems = [1, 1, 6, 0] @ replicate 8 0 @ ciaddr @ replicate 220 0 @
              [0x63, 0x82, 0x53, 0x63] @ opts,
      room = []\<rparr>"

text \<open>The layers of an Ethernet frame with the given 802.1Q tags, IPv4 source and message.\<close>

definition example_frame :: "byte list list \<Rightarrow> IP \<Rightarrow> bslice \<Rightarrow> Packet" where
  "example_frame tags srcIP msg =
     Ethernet client_mac broadcast_mac (if tags = [] then 0x0800 else 0x8100) #
     map Dot1Q tags @
     [IPv4 srcIP (Some [255, 255, 255, 255]), UDP 68 67, AppPayload msg]"

definition lease50 :: Lease where
  "lease50 = \<lparr>Ip = net_IPv4 10 0 0 50\<rparr>"

definition example_server :: DhcpServer where
  "example_server =
     \<lparr>config = \<lparr>Listen = ''eth0'', MyMac = server_mac, MyAddress = Some [10, 0, 0, 1]\<rparr>,
      fd = 3,
      ifIndex = 2,
      addr = \<lparr>Protocol = 4, Ifindex = 2, Hatype = 0, Pkttype = 0, Halen = 6,
              Addr = replicate 8 0\<rparr>,
      resolver = (\<lambda>p. Some lease50)\<rparr>"

definition example_collab :: Collab where
  "example_collab =
     \<lparr>OfferResponse = (\<lambda>p lease s. [Offer]),
      AckResponse = (\<lambda>p lease s. [ACK]),
      NakResponse = (\<lambda>p lease s. [NAK]),
      Marshal = (\<lambda>r. elems (rp_DstMac r) @ elems (rp_SrcMac r) @ Payload r),
      Sendto = (\<lambda>fd data a. None)\<rparr>"

text \<open>Option bytes: a Discover from host laptop1, and Requests for 10.0.0.50.\<close>

definition discover_options :: "byte list" where
  "discover_options =
     [53, 1, 1, 12, 7, 0x6c, 0x61, 0x70, 0x74, 0x6f, 0x70, 0x31, 255]"

definition request_options :: "byte list" where
  "request_options = [53, 1, 3, 50, 4, 10, 0, 0, 50, 255]"

text \<open>The same Discover message carried over IPv6.\<close>

definition ipv6_frame :: Packet where
  "ipv6_frame =
     [Ethernet client_mac broadcast_mac 0x86dd, IPv6, UDP 68 67,
      AppPayload (dhcp_message [0, 0, 0, 0] discover_options)]"

text \<open>Frames of the client: an untagged Discover, and Requests with a client-IP field.\<close>

definition discover_frame :: Packet where
  "discover_frame =
     example_frame [] (Some [0, 0, 0, 0]) (dhcp_message [0, 0, 0, 0] discover_options)"

definition request_frame :: "byte list \<Rightarrow> Packet" where
  "request_frame ciaddr =
     example_frame [] (Some [0, 0, 0, 0]) (dhcp_message ciaddr request_options)"

section \<open>Facts about the decoder and the concrete inputs\<close>

lemma readOptions_fields [simp]:
  "MsgType (readOptions d) = MsgType d"
  "packet (readOptions d) = packet d"
  "Options (readOptions d) = Options d"
  by (simp_all add: readOptions_def Let_def split: option.splits)

lemma example_options:
  "ParseOptions (dhcp_message [a, b, c, d] opts) = parse_loop opts Map.empty"
  by (simp add: ParseOptions_def dhcp_message_def)

lemma example_message_nonempty: "elems (dhcp_message ciaddr opts) \<noteq> []"
  by (simp add: dhcp_message_def)

lemmas option_codes =
  OptionDHCPMessageType_def OptionHostName_def OptionParameterRequestList_def
  OptionRequestedIPAddress_def End_def Pad_def

lemmas layer_defs =
  LinkLayer_def NetworkLayer_def TransportLayer_def ApplicationLayer_def

lemma discover_frame_decoded:
  "\<exists>dp. parsePacket discover_frame = Inr dp \<and> MsgType (Dhcp dp) = Discover \<and>
        SrcMac dp = client_mac \<and> DstMac dp = broadcast_mac \<and>
        SrcIP dp = Some [0, 0, 0, 0] \<and> EtherType dp = 0x0800 \<and> VLan dp = []"
  by (simp add: discover_frame_def parsePacket_def example_frame_def layer_defs
      example_options example_message_nonempty discover_options_def option_codes
      zero_DataPacket_def Discover_def Let_def)

section \<open>Discover\<close>

lemma Discover_neq_Request: "Discover \<noteq> Request"
  by (simp add: Discover_def Request_def)

text \<open>
  C7. For a Discover message: when the resolver yields a lease, the decision is an Offer
  with offered IP = lease IP, destination IP = the request's source IP and destination
  MAC = the request's source MAC; when the resolver yields no lease, no decision is
  produced.
\<close>

theorem discover_decision:
  assumes "MsgType (Dhcp p) = Discover"
  shows "(resolver s p = None \<longrightarrow> decide x s p = Inr None) \<and>
         (\<forall>lease. resolver s p = Some lease \<longrightarrow>
            (\<exists>r. decide x s p = Inr (Some r) \<and> DhcpType r = Offer \<and>
                 OfferedIp r = Ip lease \<and> DstIp r = SrcIP p \<and> rp_DstMac r = SrcMac p))"
  using assms Discover_neq_Request
  by (simp add: decide_def processDiscover_def prepareOffer_def)

text \<open>The untagged Discover of the client, with a resolver that has no lease and one that has.\<close>

theorem discover_decision_witness:
  "\<exists>dp. parsePacket discover_frame = Inr dp \<and> MsgType (Dhcp dp) = Discover \<and>
        decide example_collab (example_server\<lparr>resolver := \<lambda>p. None\<rparr>) dp = Inr None \<and>
        (\<exists>r. decide example_collab example_server dp = Inr (Some r) \<and> DhcpType r = Offer \<and>
             OfferedIp r = net_IPv4 10 0 0 50 \<and> DstIp r = Some [0, 0, 0, 0] \<and>
             rp_DstMac r = client_mac)"
proof -
  from discover_frame_decoded obtain dp where
    dp: "parsePacket discover_frame = Inr dp" "MsgType (Dhcp dp) = Discover"
      "SrcMac dp = client_mac" "SrcIP dp = Some [0, 0, 0, 0]"
    by blast
  have none: "resolver (example_server\<lparr>resolver := \<lambda>p. None\<rparr>) dp = None"
    by simp
  have some: "resolver example_server dp = Some lease50"
    by (simp add: example_server_def)
  from discover_decision [OF dp(2), of "example_server\<lparr>resolver := \<lambda>p. None\<rparr>" example_collab] none
  have 1: "decide example_collab (example_server\<lparr>resolver := \<lambda>p. None\<rparr>) dp = Inr None"
    by simp
  from discover_decision [OF dp(2), of example_server example_collab] some
  have 2: "\<exists>r. decide example_collab example_server dp = Inr (Some r) \<and> DhcpType r = Offer \<and>
             OfferedIp r = net_IPv4 10 0 0 50 \<and> DstIp r = Some [0, 0, 0, 0] \<and>
             rp_DstMac r = client_mac"
    by (simp add: dp lease50_def)
  from dp 1 2 show ?thesis by blast
qed

section \<open>Facts about the library functions\<close>

lemma ParseOptions_Some_long:
  "ParseOptions a c = Some v \<Longrightarrow> 240 < length (elems a)"
  by (auto simp: ParseOptions_def split: if_splits)

lemma decoded_message_long:
  assumes "parsePacket pkt = Inr p" and "MsgType (Dhcp p) \<noteq> 0"
  shows "240 < length (elems (packet (Dhcp p)))"
proof -
  from assms(1) obtain a where a: "packet (Dhcp p) = a"
    and m: "MsgType (Dhcp p) =
              (case ParseOptions a OptionDHCPMessageType of Some msgType \<Rightarrow> msgType ! 0 | None \<Rightarrow> 0)"
    by (auto simp: parsePacket_def Let_def zero_DataPacket_def
        split: sum.splits prod.splits if_splits option.splits)
  from m assms(2) obtain msgType where "ParseOptions a OptionDHCPMessageType = Some msgType"
    by (cases "ParseOptions a OptionDHCPMessageType") auto
  then have "240 < length (elems a)" by (rule ParseOptions_Some_long)
  with a show ?thesis by simp
qed


lemma CIAddr_not_nil: "CIAddr a = Inr ciaddr \<Longrightarrow> ciaddr \<noteq> None"
  by (auto simp: CIAddr_def split: sum.splits)

lemma CIAddr_long:
  "16 \<le> length (elems a) \<Longrightarrow> CIAddr a = Inr (Some (take 4 (drop 12 (elems a))))"
  by (simp add: CIAddr_def reslice_def)

lemma readOptions_RequestedIp:
  "RequestedIp (readOptions d) =
     (case Options d OptionRequestedIPAddress of
        Some v \<Rightarrow>
          if length v = 4 then net_IPv4 (v ! 0) (v ! 1) (v ! 2) (v ! 3) else RequestedIp d
      | None \<Rightarrow> RequestedIp d)"
  by (simp add: readOptions_def Let_def split: option.splits)

lemma request_frame_decoded:
  "\<exists>dp. parsePacket (request_frame [a, b, c, d]) = Inr dp \<and> MsgType (Dhcp dp) = Request \<and>
        SrcMac dp = client_mac \<and> DstMac dp = broadcast_mac \<and>
        SrcIP dp = Some [0, 0, 0, 0] \<and> EtherType dp = 0x0800 \<and> VLan dp = [] \<and>
        CIAddr (packet (Dhcp dp)) = Inr (Some [a, b, c, d]) \<and>
        RequestedIp (Dhcp dp) = net_IPv4 10 0 0 50"
proof -
  have ci: "CIAddr (dhcp_message [a, b, c, d] request_options) = Inr (Some [a, b, c, d])"
    by (simp add: CIAddr_def reslice_def dhcp_message_def)
  show ?thesis
    by (simp add: request_frame_def parsePacket_def example_frame_def layer_defs
      example_options example_message_nonempty request_options_def option_codes
      zero_DataPacket_def Request_def readOptions_RequestedIp Let_def ci [unfolded request_options_def])
qed

section \<open>Request\<close>

text \<open>
  C3 as stated fails: the Ack for a Request whose lease IP equals the requested-IP option
  is addressed to the client-IP field of the message, not to the source IP of the frame.
  Here the client sends from 0.0.0.0 with client-IP field 10.0.0.7 and asks for
  10.0.0.50, which is its lease.
\<close>

theorem request_ack_not_to_source_ip:
  "\<exists>dp r. parsePacket (request_frame [10, 0, 0, 7]) = Inr dp \<and>
          MsgType (Dhcp dp) = Request \<and>
          resolver example_server dp = Some lease50 \<and>
          CIAddr (packet (Dhcp dp)) = Inr (Some [10, 0, 0, 7]) \<and>
          \<not> IP_Equal (Ip lease50) (Some [10, 0, 0, 7]) \<and>
          IP_Equal (Ip lease50) (RequestedIp (Dhcp dp)) \<and>
          decide example_collab example_server dp = Inr (Some r) \<and>
          DhcpType r = ACK \<and> SrcIP dp = Some [0, 0, 0, 0] \<and> DstIp r = Some [10, 0, 0, 7] \<and>
          DstIp r \<noteq> SrcIP dp"
proof -
  from request_frame_decoded [of 10 0 0 7] obtain dp where
    dp: "parsePacket (request_frame [10, 0, 0, 7]) = Inr dp" "MsgType (Dhcp dp) = Request"
      "SrcIP dp = Some [0, 0, 0, 0]" "CIAddr (packet (Dhcp dp)) = Inr (Some [10, 0, 0, 7])"
      "RequestedIp (Dhcp dp) = net_IPv4 10 0 0 50"
    by blast
  have res: "resolver example_server dp = Some lease50"
    by (simp add: example_server_def)
  have ne: "\<not> IP_Equal (Ip lease50) (Some [10, 0, 0, 7])"
    by (simp add: IP_Equal_def lease50_def net_IPv4_def v4InV6Prefix_def len_def bytes_def)
  have eq: "IP_Equal (Ip lease50) (RequestedIp (Dhcp dp))"
    by (simp add: IP_Equal_def lease50_def dp)
  have "\<exists>r. decide example_collab example_server dp = Inr (Some r) \<and>
          DhcpType r = ACK \<and> DstIp r = Some [10, 0, 0, 7]"
    using ne eq by (simp add: decide_def processRequest_def prepareAck_def dp res)
  with dp res ne eq show ?thesis by auto
qed

text \<open>
  C3, amended. For a Request with a non-zero client-IP field that differs from the IP of
  the resolved lease, if the lease IP equals the requested-IP option then the decision is
  an Ack for the lease whose destination IP is the client-IP field of the message.
\<close>

theorem request_ack_requested_ip:
  assumes "MsgType (Dhcp p) = Request"
    and "resolver s p = Some lease"
    and "CIAddr (packet (Dhcp p)) = Inr ciaddr"
    and "ciaddr \<noteq> Some [0, 0, 0, 0]"
    and "\<not> IP_Equal (Ip lease) ciaddr"
    and "IP_Equal (Ip lease) (RequestedIp (Dhcp p))"
  shows "\<exists>r. decide x s p = Inr (Some r) \<and> DhcpType r = ACK \<and> DstIp r = ciaddr \<and>
             OfferedIp r = Ip lease \<and> rp_DstMac r = SrcMac p"
proof -
  from assms(3) have "ciaddr \<noteq> None" by (rule CIAddr_not_nil)
  with assms show ?thesis
    by (auto simp: decide_def processRequest_def prepareAck_def)
qed

theorem request_ack_requested_ip_witness:
  "\<exists>dp r. parsePacket (request_frame [10, 0, 0, 9]) = Inr dp \<and>
          decide example_collab example_server dp = Inr (Some r) \<and> DhcpType r = ACK \<and>
          DstIp r = Some [10, 0, 0, 9] \<and> OfferedIp r = net_IPv4 10 0 0 50 \<and>
          rp_DstMac r = client_mac"
proof -
  from request_frame_decoded [of 10 0 0 9] obtain dp where
    dp: "parsePacket (request_frame [10, 0, 0, 9]) = Inr dp" "MsgType (Dhcp dp) = Request"
      "SrcMac dp = client_mac" "CIAddr (packet (Dhcp dp)) = Inr (Some [10, 0, 0, 9])"
      "RequestedIp (Dhcp dp) = net_IPv4 10 0 0 50"
    by blast
  have res: "resolver example_server dp = Some lease50"
    by (simp add: example_server_def)
  have nz: "Some [10, 0, 0, 9] \<noteq> Some [0, 0, 0, 0::byte]"
    by simp
  have ne: "\<not> IP_Equal (Ip lease50) (Some [10, 0, 0, 9])"
    by (simp add: IP_Equal_def lease50_def net_IPv4_def v4InV6Prefix_def len_def bytes_def)
  have eq: "IP_Equal (Ip lease50) (RequestedIp (Dhcp dp))"
    by (simp add: IP_Equal_def lease50_def dp)
  from request_ack_requested_ip [OF dp(2) res dp(4) nz ne eq, of example_collab] dp
  show ?thesis by (auto simp: lease50_def)
qed

text \<open>
  C1 fails on the code: the branch that answers a Request with an Offer tests the
  client-IP field against nil, and the field read from a message is never nil. A Request
  with client-IP field 0.0.0.0 for the leased address 10.0.0.50 is answered with an Ack.
\<close>

theorem request_zero_client_ip_acked:
  "\<exists>dp r. parsePacket (request_frame [0, 0, 0, 0]) = Inr dp \<and>
          MsgType (Dhcp dp) = Request \<and>
          resolver example_server dp = Some lease50 \<and>
          CIAddr (packet (Dhcp dp)) = Inr (Some [0, 0, 0, 0]) \<and>
          decide example_collab example_server dp = Inr (Some r) \<and>
          DhcpType r = ACK \<and> DhcpType r \<noteq> Offer"
proof -
  from request_frame_decoded [of 0 0 0 0] obtain dp where
    dp: "parsePacket (request_frame [0, 0, 0, 0]) = Inr dp" "MsgType (Dhcp dp) = Request"
      "CIAddr (packet (Dhcp dp)) = Inr (Some [0, 0, 0, 0])"
      "RequestedIp (Dhcp dp) = net_IPv4 10 0 0 50"
    by blast
  have res: "resolver example_server dp = Some lease50"
    by (simp add: example_server_def)
  have ne: "\<not> IP_Equal (Ip lease50) (Some [0, 0, 0, 0])"
    by (simp add: IP_Equal_def lease50_def net_IPv4_def v4InV6Prefix_def len_def bytes_def)
  have eq: "IP_Equal (Ip lease50) (RequestedIp (Dhcp dp))"
    by (simp add: IP_Equal_def lease50_def dp)
  have "\<exists>r. decide example_collab example_server dp = Inr (Some r) \<and> DhcpType r = ACK"
    using ne eq by (simp add: decide_def processRequest_def prepareAck_def dp res)
  with dp res show ?thesis by (auto simp: ACK_def Offer_def)
qed

text \<open>No Request is answered with an Offer, whatever its client-IP field.\<close>

lemma request_never_offered:
  assumes "MsgType (Dhcp p) = Request" and "decide x s p = Inr (Some r)"
  shows "DhcpType r \<noteq> Offer"
proof (cases "resolver s p")
  case None
  with assms show ?thesis by (simp add: decide_def processRequest_def)
next
  case (Some lease)
  show ?thesis
  proof (cases "CIAddr (packet (Dhcp p))")
    case (Inl f)
    with assms Some show ?thesis by (simp add: decide_def processRequest_def)
  next
    case (Inr ciaddr)
    then have "ciaddr \<noteq> None" by (rule CIAddr_not_nil)
    with assms Some Inr show ?thesis
      by (auto simp: decide_def processRequest_def prepareAck_def prepareNak_def
          ACK_def NAK_def Offer_def split: if_splits)
  qed
qed

section \<open>The response constructors\<close>

text \<open>
  C10. For a decoded request that reaches a constructor (its message type is Discover or
  Request) and any lease, each of the three constructors yields a response whose source
  MAC is the configured server MAC, whose source IP is the configured server address,
  whose offered IP is the lease IP, whose destination MAC is the request's source MAC,
  and whose EtherType and VLAN sequence are those of the request.
\<close>

theorem constructors_addressing:
  assumes "parsePacket pkt = Inr p"
    and "MsgType (Dhcp p) = Discover \<or> MsgType (Dhcp p) = Request"
  shows "\<exists>ack. prepareAck x s p lease = Inr ack \<and>
           list_all
             (\<lambda>r. rp_SrcMac r = MyMac (config s) \<and> SrcIp r = MyAddress (config s) \<and>
                  OfferedIp r = Ip lease \<and> rp_DstMac r = SrcMac p \<and>
                  rp_EtherType r = EtherType p \<and> rp_VLan r = VLan p)
             [prepareOffer x s p lease, ack, prepareNak x s p lease]"
proof -
  from assms(2) have "MsgType (Dhcp p) \<noteq> 0"
    by (auto simp: Discover_def Request_def)
  with assms(1) have "240 < length (elems (packet (Dhcp p)))"
    by (rule decoded_message_long)
  then have "CIAddr (packet (Dhcp p)) = Inr (Some (take 4 (drop 12 (elems (packet (Dhcp p))))))"
    by (simp add: CIAddr_long)
  then show ?thesis
    by (simp add: prepareAck_def prepareOffer_def prepareNak_def)
qed

theorem constructors_addressing_witness:
  "\<exists>dp ack. parsePacket discover_frame = Inr dp \<and>
      prepareAck example_collab example_server dp lease50 = Inr ack \<and>
      list_all
        (\<lambda>r. rp_SrcMac r = server_mac \<and> SrcIp r = Some [10, 0, 0, 1] \<and>
             OfferedIp r = net_IPv4 10 0 0 50 \<and> rp_DstMac r = client_mac \<and>
             rp_EtherType r = 0x0800 \<and> rp_VLan r = [])
        [prepareOffer example_collab example_server dp lease50, ack,
         prepareNak example_collab example_server dp lease50]"
proof -
  from discover_frame_decoded obtain dp where
    dp: "parsePacket discover_frame = Inr dp" "MsgType (Dhcp dp) = Discover"
      "SrcMac dp = client_mac" "EtherType dp = 0x0800" "VLan dp = []"
    by blast
  from dp(2) have "MsgType (Dhcp dp) = Discover \<or> MsgType (Dhcp dp) = Request"
    by simp
  from constructors_addressing [OF dp(1) this, of example_collab example_server lease50] dp
  show ?thesis
    by (auto simp: example_server_def lease50_def)
qed

section \<open>Facts about the tag control word\<close>

lemma unat_tci: "unat (tci c) = 256 * unat (c ! 0) + unat (c ! 1)"
proof -
  have w: "unat (push_bit 8 (ucast a) + ucast b :: uint16) = 256 * unat a + unat b"
    for a b :: byte
  proof -
    have a: "unat a < 256" and b: "unat b < 256"
      using unsigned_less [of a, where 'a=nat] unsigned_less [of b, where 'a=nat] by simp_all
    have ua: "unat (ucast a :: uint16) = unat a" and ub: "unat (ucast b :: uint16) = unat b"
      using a b by (simp_all add: unsigned_ucast_eq take_bit_nat_eq_self)
    have p: "unat (push_bit 8 (ucast a :: uint16)) = 256 * unat a"
      using a by (simp add: push_bit_eq_mult unat_word_ariths ua)
    have "unat (push_bit 8 (ucast a) + ucast b :: uint16) = (256 * unat a + unat b) mod 65536"
      by (simp add: unat_word_ariths p ub)
    with a b show ?thesis by simp
  qed
  show ?thesis unfolding tci_def by (rule w)
qed

lemma nibble_split: "256 * a + b = 4096 * (a div 16) + (256 * (a mod 16) + b)" for a b :: nat
proof -
  have lin: "a = 16 * x + y \<Longrightarrow> 256 * a + b = 4096 * x + (256 * y + b)" for x y :: nat
    by simp
  have "a = 16 * (a div 16) + a mod 16"
    by (simp only: mult_div_mod_eq)
  then show ?thesis by (rule lin)
qed

lemma tci_split: "unat (tci c) = 4096 * priority_and_dei c + vlan_id c"
  unfolding unat_tci priority_and_dei_def vlan_id_def by (rule nibble_split)

section \<open>Facts about decoding\<close>

lemma vlan_loop_tags:
  "list_all (\<lambda>c. 2 \<le> length c) (dot1q_tags ls) \<Longrightarrow>
   vlan_loop ls vlan = Inr (vlan @ map tci (dot1q_tags ls))"
  by (induction ls vlan rule: vlan_loop.induct) auto

lemma dhcp_frame_layers:
  assumes "dhcp_frame p"
  obtains srcMAC dstMAC ethernetType srcIP dstIP srcPort dstPort where
    "asEthernet (LinkLayer p) = Inr (srcMAC, dstMAC, ethernetType)"
    "vlan_loop p [] = Inr (map tci (dot1q_tags p))"
    "asIPv4 (NetworkLayer p) = Inr (srcIP, dstIP)"
    "asUDP (TransportLayer p) = Inr (srcPort, dstPort)"
    "payloadOf (ApplicationLayer p) = Inr (message p)"
    "elems (message p) \<noteq> []"
proof -
  from assms have e: "isEthernet (LinkLayer p)"
    and t: "list_all (\<lambda>c. 2 \<le> length c) (dot1q_tags p)"
    and i: "isIPv4 (NetworkLayer p)" and u: "isUDP (TransportLayer p)"
    and m: "elems (message p) \<noteq> []"
    by (simp_all add: dhcp_frame_def)
  from e obtain srcMAC dstMAC ethernetType
    where 1: "asEthernet (LinkLayer p) = Inr (srcMAC, dstMAC, ethernetType)"
    by (cases "LinkLayer p" rule: isEthernet.cases) auto
  from i obtain srcIP dstIP where 2: "asIPv4 (NetworkLayer p) = Inr (srcIP, dstIP)"
    by (cases "NetworkLayer p" rule: isIPv4.cases) auto
  from u obtain srcPort dstPort where 3: "asUDP (TransportLayer p) = Inr (srcPort, dstPort)"
    by (cases "TransportLayer p" rule: isUDP.cases) auto
  from m have 4: "payloadOf (ApplicationLayer p) = Inr (message p)"
    by (auto simp: message_def nil_slice_def split: sum.splits)
  from t have 5: "vlan_loop p [] = Inr (map tci (dot1q_tags p))"
    using vlan_loop_tags [of p "[]"] by simp
  from 1 5 2 3 4 m show thesis by (rule that)
qed

text \<open>
  What a frame with the expected layers decodes to, when the message-type option does
  not stop the decoding.
\<close>

lemma parsePacket_dhcp_frame:
  assumes "dhcp_frame p" and "message_type_ok (ParseOptions (message p))"
  shows "\<exists>dp. parsePacket p = Inr dp \<and>
           VLan dp = map tci (dot1q_tags p) \<and>
           packet (Dhcp dp) = message p \<and>
           RequestedIp (Dhcp dp) =
             (case ParseOptions (message p) OptionRequestedIPAddress of
                Some v \<Rightarrow> if length v = 4 then net_IPv4 (v ! 0) (v ! 1) (v ! 2) (v ! 3) else None
              | None \<Rightarrow> None)"
proof -
  from assms(1) obtain srcMAC dstMAC ethernetType srcIP dstIP srcPort dstPort where
    "asEthernet (LinkLayer p) = Inr (srcMAC, dstMAC, ethernetType)"
    "vlan_loop p [] = Inr (map tci (dot1q_tags p))"
    "asIPv4 (NetworkLayer p) = Inr (srcIP, dstIP)"
    "asUDP (TransportLayer p) = Inr (srcPort, dstPort)"
    "payloadOf (ApplicationLayer p) = Inr (message p)"
    "elems (message p) \<noteq> []"
    by (rule dhcp_frame_layers)
  note layers = this
  show ?thesis
  proof (cases "ParseOptions (message p) OptionDHCPMessageType")
    case None
    with layers show ?thesis
      by (simp add: parsePacket_def Let_def readOptions_RequestedIp zero_DataPacket_def
          split: option.splits)
  next
    case (Some msgType)
    with assms(2) have "length msgType = 1"
      by (simp add: message_type_ok_def)
    with Some layers show ?thesis
      by (simp add: parsePacket_def Let_def readOptions_RequestedIp zero_DataPacket_def
          split: option.splits)
  qed
qed

lemma find_skip_tags:
  "(\<And>c. \<not> P (Dot1Q c)) \<Longrightarrow> find P (map Dot1Q tags @ rest) = find P rest"
  by (induction tags) auto

lemma dot1q_tags_map: "dot1q_tags (map Dot1Q tags @ rest) = tags @ dot1q_tags rest"
  by (induction tags) auto

lemma example_frame_tags: "dot1q_tags (example_frame tags srcIP msg) = tags"
  by (simp add: example_frame_def dot1q_tags_map)

lemma example_frame_message: "message (example_frame tags srcIP msg) = msg"
  by (simp add: example_frame_def message_def ApplicationLayer_def find_skip_tags)

lemma example_frame_dhcp:
  "list_all (\<lambda>c. 2 \<le> length c) tags \<Longrightarrow>
   dhcp_frame (example_frame tags srcIP (dhcp_message ciaddr opts))"
  unfolding dhcp_frame_def
  by (simp add: example_frame_def LinkLayer_def NetworkLayer_def TransportLayer_def
      find_skip_tags dot1q_tags_map message_def ApplicationLayer_def example_message_nonempty)

lemma discover_options_parsed:
  "parse_loop discover_options Map.empty OptionDHCPMessageType = Some [Discover]"
  "parse_loop discover_options Map.empty OptionRequestedIPAddress = None"
  by (simp_all add: discover_options_def option_codes Discover_def)

lemma discover_message_type_ok:
  "message_type_ok (ParseOptions (dhcp_message [a, b, c, d] discover_options))"
  by (simp add: message_type_ok_def example_options discover_options_parsed)

section \<open>The message-type option\<close>

text \<open>
  C8. For a frame with the expected layers whose message carries a message-type option
  (option 53): when the value is not exactly one byte long, decoding fails with the error
  ``Cannot parse DHCP message type'' (the specification's MalformedOption); when it is
  exactly one byte, decoding succeeds and the message type of the request is that byte.
\<close>

theorem message_type_option:
  assumes "dhcp_frame p"
    and "ParseOptions (message p) OptionDHCPMessageType = Some msgType"
  shows "(length msgType \<noteq> 1 \<longrightarrow>
            parsePacket p = Inl (Error ''Cannot parse DHCP message type'')) \<and>
         (\<forall>b. msgType = [b] \<longrightarrow> (\<exists>dp. parsePacket p = Inr dp \<and> MsgType (Dhcp dp) = b))"
proof -
  from assms(1) obtain srcMAC dstMAC ethernetType srcIP dstIP srcPort dstPort where
    "asEthernet (LinkLayer p) = Inr (srcMAC, dstMAC, ethernetType)"
    "vlan_loop p [] = Inr (map tci (dot1q_tags p))"
    "asIPv4 (NetworkLayer p) = Inr (srcIP, dstIP)"
    "asUDP (TransportLayer p) = Inr (srcPort, dstPort)"
    "payloadOf (ApplicationLayer p) = Inr (message p)"
    "elems (message p) \<noteq> []"
    by (rule dhcp_frame_layers)
  with assms(2) show ?thesis
    by (simp add: parsePacket_def Let_def)
qed

text \<open>A message-type option of two bytes, one of no byte, and the Discover of the client.\<close>

theorem message_type_option_witness:
  "parsePacket (example_frame [] (Some [0, 0, 0, 0]) (dhcp_message [0, 0, 0, 0] [53, 2, 1, 1, 255])) =
     Inl (Error ''Cannot parse DHCP message type'') \<and>
   parsePacket (example_frame [] (Some [0, 0, 0, 0]) (dhcp_message [0, 0, 0, 0] [53, 0, 255])) =
     Inl (Error ''Cannot parse DHCP message type'') \<and>
   (\<exists>dp. parsePacket (example_frame [] (Some [0, 0, 0, 0]) (dhcp_message [0, 0, 0, 0] discover_options)) = Inr dp \<and>
         MsgType (Dhcp dp) = Discover)"
proof -
  have frame: "dhcp_frame (example_frame [] (Some [0, 0, 0, 0]) (dhcp_message [0, 0, 0, 0] opts))"
    for opts
    by (rule example_frame_dhcp) simp
  have two: "ParseOptions (message (example_frame [] (Some [0, 0, 0, 0])
        (dhcp_message [0, 0, 0, 0] [53, 2, 1, 1, 255]))) OptionDHCPMessageType = Some [1, 1]"
    by (simp add: example_frame_message example_options option_codes)
  have none: "ParseOptions (message (example_frame [] (Some [0, 0, 0, 0])
        (dhcp_message [0, 0, 0, 0] [53, 0, 255]))) OptionDHCPMessageType = Some []"
    by (simp add: example_frame_message example_options option_codes)
  have one: "ParseOptions (message (example_frame [] (Some [0, 0, 0, 0])
        (dhcp_message [0, 0, 0, 0] discover_options))) OptionDHCPMessageType = Some [Discover]"
    by (simp add: example_frame_message example_options discover_options_parsed)
  from message_type_option [OF frame two] message_type_option [OF frame none]
    message_type_option [OF frame one]
  show ?thesis by simp
qed

section \<open>The requested-IP option\<close>

text \<open>
  C9. For a frame with the expected layers whose message carries a requested-IP option
  (option 50) and whose message-type option does not stop the decoding: decoding
  succeeds, and the requested IP of the request is present exactly when the value of the
  option is four bytes long (it is then the address made of these bytes); a value of any
  other length leaves the field unset and is no error.
\<close>

theorem requested_ip_option:
  assumes "dhcp_frame p"
    and "message_type_ok (ParseOptions (message p))"
    and "ParseOptions (message p) OptionRequestedIPAddress = Some requestedIp"
  shows "\<exists>dp. parsePacket p = Inr dp \<and>
           (RequestedIp (Dhcp dp) \<noteq> None \<longleftrightarrow> length requestedIp = 4) \<and>
           (length requestedIp = 4 \<longrightarrow>
              RequestedIp (Dhcp dp) =
                net_IPv4 (requestedIp ! 0) (requestedIp ! 1) (requestedIp ! 2) (requestedIp ! 3))"
  using parsePacket_dhcp_frame [OF assms(1) assms(2)] assms(3)
  by (auto simp: net_IPv4_def)

text \<open>A requested-IP option of four bytes, and one of three bytes.\<close>

theorem requested_ip_option_witness:
  "(\<exists>dp. parsePacket (example_frame [] (Some [0, 0, 0, 0]) (dhcp_message [0, 0, 0, 0] [53, 1, 3, 50, 4, 10, 0, 0, 50, 255])) = Inr dp \<and>
         RequestedIp (Dhcp dp) = net_IPv4 10 0 0 50) \<and>
   (\<exists>dp. parsePacket (example_frame [] (Some [0, 0, 0, 0]) (dhcp_message [0, 0, 0, 0] [53, 1, 3, 50, 3, 10, 0, 0, 255])) = Inr dp \<and>
         RequestedIp (Dhcp dp) = None)"
proof -
  have frame: "dhcp_frame (example_frame [] (Some [0, 0, 0, 0]) (dhcp_message [0, 0, 0, 0] opts))"
    for opts
    by (rule example_frame_dhcp) simp
  have ok4: "message_type_ok (ParseOptions (message (example_frame [] (Some [0, 0, 0, 0])
        (dhcp_message [0, 0, 0, 0] [53, 1, 3, 50, 4, 10, 0, 0, 50, 255]))))"
    by (simp add: message_type_ok_def example_frame_message example_options option_codes)
  have ip4: "ParseOptions (message (example_frame [] (Some [0, 0, 0, 0])
        (dhcp_message [0, 0, 0, 0] [53, 1, 3, 50, 4, 10, 0, 0, 50, 255])))
        OptionRequestedIPAddress = Some [10, 0, 0, 50]"
    by (simp add: example_frame_message example_options option_codes)
  have ok3: "message_type_ok (ParseOptions (message (example_frame [] (Some [0, 0, 0, 0])
        (dhcp_message [0, 0, 0, 0] [53, 1, 3, 50, 3, 10, 0, 0, 255]))))"
    by (simp add: message_type_ok_def example_frame_message example_options option_codes)
  have ip3: "ParseOptions (message (example_frame [] (Some [0, 0, 0, 0])
        (dhcp_message [0, 0, 0, 0] [53, 1, 3, 50, 3, 10, 0, 0, 255])))
        OptionRequestedIPAddress = Some [10, 0, 0]"
    by (simp add: example_frame_message example_options option_codes)
  from requested_ip_option [OF frame ok4 ip4] requested_ip_option [OF frame ok3 ip3]
  show ?thesis by auto
qed

section \<open>VLAN tags\<close>

text \<open>
  C4 as stated fails: the loop over the layers has no bound and the decoder has no error
  for too many tags. A frame with three stacked tags (VLAN ids 100, 200 and 300) is
  decoded, with three entries.
\<close>

theorem three_tags_decoded:
  "\<exists>dp. parsePacket
          (example_frame [[0, 100, 0x81, 0], [0, 200, 0x81, 0], [1, 44, 8, 0]]
             (Some [0, 0, 0, 0]) (dhcp_message [0, 0, 0, 0] discover_options)) = Inr dp \<and>
        length (VLan dp) = 3 \<and> VLan dp = [100, 200, 300]"
proof -
  have "dhcp_frame (example_frame [[0, 100, 0x81, 0], [0, 200, 0x81, 0], [1, 44, 8, 0]]
             (Some [0, 0, 0, 0]) (dhcp_message [0, 0, 0, 0] discover_options))"
    by (rule example_frame_dhcp) simp
  from parsePacket_dhcp_frame [OF this] show ?thesis
    by (auto simp: example_frame_message example_frame_tags discover_message_type_ok tci_def)
qed

text \<open>
  C4, amended. The decoder places no bound on the depth of stacked VLAN tags and has no
  error for it: a frame with the expected layers and any number of stacked tags is
  decoded (unless the message-type option stops the decoding), and the VLAN sequence of
  the request has one entry per tag.
\<close>

theorem vlan_depth_unbounded:
  assumes "dhcp_frame p" and "message_type_ok (ParseOptions (message p))"
  shows "\<exists>dp. parsePacket p = Inr dp \<and> length (VLan dp) = length (dot1q_tags p)"
  using parsePacket_dhcp_frame [OF assms] by auto

text \<open>A frame with four stacked tags.\<close>

theorem vlan_depth_unbounded_witness:
  "\<exists>dp. parsePacket
          (example_frame [[0, 10, 0x81, 0], [0, 20, 0x81, 0], [0, 30, 0x81, 0], [0, 40, 8, 0]]
             (Some [0, 0, 0, 0]) (dhcp_message [0, 0, 0, 0] discover_options)) = Inr dp \<and>
        length (VLan dp) = 4"
proof -
  have frame: "dhcp_frame (example_frame [[0, 10, 0x81, 0], [0, 20, 0x81, 0], [0, 30, 0x81, 0], [0, 40, 8, 0]]
             (Some [0, 0, 0, 0]) (dhcp_message [0, 0, 0, 0] discover_options))"
    by (rule example_frame_dhcp) simp
  have ok: "message_type_ok (ParseOptions (message (example_frame
             [[0, 10, 0x81, 0], [0, 20, 0x81, 0], [0, 30, 0x81, 0], [0, 40, 8, 0]]
             (Some [0, 0, 0, 0]) (dhcp_message [0, 0, 0, 0] discover_options))))"
    by (simp add: example_frame_message discover_message_type_ok)
  from vlan_depth_unbounded [OF frame ok] show ?thesis
    by (auto simp: example_frame_tags)
qed

text \<open>
  C5 as stated fails: an entry of the VLAN sequence is the whole 16-bit tag control word,
  priority and drop-eligible bits included. A tag with priority 7 and VLAN id 100 gives
  the entry 0xE064, not 100.
\<close>

theorem priority_tag_entry:
  "\<exists>dp. parsePacket
          (example_frame [[0xE0, 0x64, 0x08, 0x00]] (Some [0, 0, 0, 0])
             (dhcp_message [0, 0, 0, 0] discover_options)) = Inr dp \<and>
        VLan dp = [0xE064] \<and>
        vlan_id [0xE0, 0x64, 0x08, 0x00] = 100 \<and>
        map unat (VLan dp) \<noteq> map vlan_id [[0xE0, 0x64, 0x08, 0x00]]"
proof -
  have "dhcp_frame (example_frame [[0xE0, 0x64, 0x08, 0x00]] (Some [0, 0, 0, 0])
             (dhcp_message [0, 0, 0, 0] discover_options))"
    by (rule example_frame_dhcp) simp
  from parsePacket_dhcp_frame [OF this] show ?thesis
    by (auto simp: example_frame_message example_frame_tags discover_message_type_ok tci_def
        vlan_id_def)
qed

text \<open>
  C5, amended. For a frame with the expected layers and 0, 1, 2 (or more) stacked tags,
  the VLAN sequence of the request has exactly one entry per tag, in the order of the
  tags from the outermost to the innermost, and each entry is the 16-bit tag control
  word of its tag: 4096 times the four priority and drop-eligible bits plus the 12-bit
  VLAN id. An entry is the VLAN id itself when those four bits are zero.
\<close>

theorem vlan_entries_are_tag_control:
  assumes "dhcp_frame p" and "message_type_ok (ParseOptions (message p))"
  shows "\<exists>dp. parsePacket p = Inr dp \<and>
           VLan dp = map tci (dot1q_tags p) \<and>
           map unat (VLan dp) =
             map (\<lambda>c. 4096 * priority_and_dei c + vlan_id c) (dot1q_tags p) \<and>
           (list_all (\<lambda>c. priority_and_dei c = 0) (dot1q_tags p) \<longrightarrow>
              map unat (VLan dp) = map vlan_id (dot1q_tags p))"
proof -
  from parsePacket_dhcp_frame [OF assms] obtain dp where
    dp: "parsePacket p = Inr dp" "VLan dp = map tci (dot1q_tags p)"
    by blast
  have 1: "map unat (map tci cs) = map (\<lambda>c. 4096 * priority_and_dei c + vlan_id c) cs" for cs
    by (simp add: tci_split)
  have 2: "list_all (\<lambda>c. priority_and_dei c = 0) cs \<Longrightarrow>
           map (\<lambda>c. 4096 * priority_and_dei c + vlan_id c) cs = map vlan_id cs" for cs
    by (induction cs) simp_all
  from dp 1 2 show ?thesis by simp
qed

text \<open>Two stacked tags without priority (VLAN ids 100 and 200), and one with priority 7.\<close>

theorem vlan_entries_are_tag_control_witness:
  "(\<exists>dp. parsePacket
          (example_frame [[0, 100, 0x81, 0], [0, 200, 8, 0]] (Some [0, 0, 0, 0])
             (dhcp_message [0, 0, 0, 0] discover_options)) = Inr dp \<and>
        VLan dp = [100, 200] \<and> map unat (VLan dp) = [100, 200]) \<and>
   (\<exists>dp. parsePacket
          (example_frame [[0xE0, 200, 8, 0]] (Some [0, 0, 0, 0])
             (dhcp_message [0, 0, 0, 0] discover_options)) = Inr dp \<and>
        map unat (VLan dp) = [4096 * 14 + 200])"
proof -
  have frame: "list_all (\<lambda>c. 2 \<le> length c) tags \<Longrightarrow>
      dhcp_frame (example_frame tags (Some [0, 0, 0, 0]) (dhcp_message [0, 0, 0, 0] discover_options))"
    for tags
    by (rule example_frame_dhcp)
  have ok: "message_type_ok (ParseOptions (message (example_frame tags
             (Some [0, 0, 0, 0]) (dhcp_message [0, 0, 0, 0] discover_options))))" for tags
    by (simp add: example_frame_message discover_message_type_ok)
  have f2: "dhcp_frame (example_frame [[0, 100, 0x81, 0], [0, 200, 8, 0]] (Some [0, 0, 0, 0])
      (dhcp_message [0, 0, 0, 0] discover_options))"
    by (rule frame) simp
  have f1: "dhcp_frame (example_frame [[0xE0, 200, 8, 0]] (Some [0, 0, 0, 0])
      (dhcp_message [0, 0, 0, 0] discover_options))"
    by (rule frame) simp
  from vlan_entries_are_tag_control [OF f2 ok] vlan_entries_are_tag_control [OF f1 ok]
  show ?thesis
    by (auto simp: example_frame_tags tci_def priority_and_dei_def vlan_id_def)
qed

section \<open>Frames that are not IPv4, and the receive loop\<close>

text \<open>A frame that returns an error is skipped, and the loop goes on with the next frame.\<close>

lemma run_loop_skips_error:
  "parsePacket pkt = Inl (Error err) \<Longrightarrow> run_loop x s (pkt # packets) = run_loop x s packets"
  by simp

text \<open>A panic in the decoder ends the loop: the frames behind it are never handled.\<close>

lemma run_loop_panic:
  "parsePacket pkt = Inl (Panic k) \<Longrightarrow> run_loop x s (pkt # packets) = ([], Some (Panic k))"
  by simp

text \<open>
  An Ethernet frame whose network layer is missing or is not IPv4 makes the decoder
  panic at the type assertion; it returns no error.
\<close>

lemma non_ipv4_panics:
  assumes "isEthernet (LinkLayer p)"
    and "list_all (\<lambda>c. 2 \<le> length c) (dot1q_tags p)"
    and "\<not> isIPv4 (NetworkLayer p)"
  shows "parsePacket p = Inl (Panic TypeAssertion)"
proof -
  from assms(1) obtain srcMAC dstMAC ethernetType
    where 1: "asEthernet (LinkLayer p) = Inr (srcMAC, dstMAC, ethernetType)"
    by (cases "LinkLayer p" rule: isEthernet.cases) auto
  from assms(2) have 2: "vlan_loop p [] = Inr (map tci (dot1q_tags p))"
    using vlan_loop_tags [of p "[]"] by simp
  from assms(3) have 3: "asIPv4 (NetworkLayer p) = Inl (Panic TypeAssertion)"
    by (cases "NetworkLayer p" rule: isIPv4.cases) auto
  from 1 2 3 show ?thesis
    by (simp add: parsePacket_def)
qed

text \<open>
  C6 fails on the code: for the Discover of the client carried over IPv6 the decoder
  panics instead of returning an error, the loop does not recover, and the Discover
  that follows it is never answered.
\<close>

theorem ipv6_frame_ends_the_loop:
  "parsePacket ipv6_frame = Inl (Panic TypeAssertion) \<and>
   run example_collab example_server [ipv6_frame, discover_frame] =
     ([], Some (Panic TypeAssertion)) \<and>
   (\<exists>a. run example_collab example_server [discover_frame] = ([a], None))"
proof -
  have p: "parsePacket ipv6_frame = Inl (Panic TypeAssertion)"
    by (rule non_ipv4_panics) (simp_all add: ipv6_frame_def layer_defs)
  from discover_frame_decoded obtain dp where
    dp: "parsePacket discover_frame = Inr dp" "MsgType (Dhcp dp) = Discover"
      "DstMac dp = broadcast_mac"
    by blast
  have s1: "Sendto example_collab fd' data a = None" for fd' data a
    by (simp add: example_collab_def)
  have r: "\<exists>a. respond example_collab s dp = Inr a"
    if "resolver s = (\<lambda>p. Some lease50)" for s
    using that Discover_neq_Request
    by (simp add: respond_def decide_def processDiscover_def dp reslice_def broadcast_mac_def
        s1 Let_def)
  have "resolver (example_server\<lparr>addr := \<lparr>Protocol = 4, Ifindex = ifIndex example_server,
          Hatype = 0, Pkttype = 0, Halen = 6, Addr = replicate 8 0\<rparr>\<rparr>) = (\<lambda>p. Some lease50)"
    by (simp add: example_server_def)
  from r [OF this] obtain a where
    "respond example_collab
       (example_server\<lparr>addr := \<lparr>Protocol = 4, Ifindex = ifIndex example_server, Hatype = 0,
          Pkttype = 0, Halen = 6, Addr = replicate 8 0\<rparr>\<rparr>) dp = Inr a"
    by blast
  with p dp show ?thesis
    by (simp add: run_def)
qed

section \<open>The transmit address\<close>

text \<open>
  What \<^verbatim>\<open>respond\<close> hands to \<^verbatim>\<open>syscall.Sendto\<close>: the encoded response, and the
  address of the server with the first eight bytes at the destination MAC of the request
  copied into it.
\<close>

lemma respond_sent:
  assumes "respond x s p = Inr (Sent r data a)" and "length (Addr (addr s)) = 8"
  shows "decide x s p = Inr (Some r) \<and> data = Marshal x r \<and>
         Addr a = take 8 (elems (DstMac p) @ room (DstMac p))"
  using assms
  by (auto simp: respond_def reslice_def copy_def Let_def min_def
      split: sum.splits option.splits if_splits)

text \<open>
  C2 fails on the code: the response to the Discover of the client has the client's MAC
  aa:bb:cc:dd:ee:ff as its destination MAC, but the address handed to the transmit call
  is filled from the destination MAC of the request, the broadcast address.
\<close>

theorem response_sent_to_request_destination:
  "\<exists>dp r data a. parsePacket discover_frame = Inr dp \<and>
      respond example_collab example_server dp = Inr (Sent r data a) \<and>
      data = Marshal example_collab r \<and>
      rp_DstMac r = SrcMac dp \<and>
      elems (rp_DstMac r) = [0xaa, 0xbb, 0xcc, 0xdd, 0xee, 0xff] \<and>
      Addr a = [0xff, 0xff, 0xff, 0xff, 0xff, 0xff, 0xaa, 0xbb] \<and>
      take 6 (Addr a) = elems (DstMac dp) \<and>
      take 6 (Addr a) \<noteq> elems (rp_DstMac r)"
proof -
  from discover_frame_decoded obtain dp where
    dp: "parsePacket discover_frame = Inr dp" "MsgType (Dhcp dp) = Discover"
      "SrcMac dp = client_mac" "DstMac dp = broadcast_mac"
    by blast
  have s1: "Sendto example_collab fd' data a = None" for fd' data a
    by (simp add: example_collab_def)
  have s2: "Addr (addr example_server) = replicate 8 0"
    by (simp add: example_server_def)
  have d: "decide example_collab example_server dp =
             Inr (Some (prepareOffer example_collab example_server dp lease50))"
    using Discover_neq_Request
    by (simp add: decide_def processDiscover_def dp example_server_def)
  have "respond example_collab example_server dp =
          Inr (Sent (prepareOffer example_collab example_server dp lease50)
                 (Marshal example_collab (prepareOffer example_collab example_server dp lease50))
                 ((addr example_server)\<lparr>Addr := [0xff, 0xff, 0xff, 0xff, 0xff, 0xff, 0xaa, 0xbb]\<rparr>))"
    by (simp add: respond_def d dp reslice_def broadcast_mac_def copy_def Let_def s1 s2)
  with dp show ?thesis
    by (simp add: prepareOffer_def client_mac_def broadcast_mac_def)
qed

end
